theory Spec2Isabelle
  imports Complex_Main "HOL-Library.AList"
begin

section \<open>Command parser (js-peer/src/lib/command-parser.ts)\<close>

text \<open>
  JavaScript strings are modelled as \<^typ>\<open>string\<close>; the characters are the code units
  below 256. Among those, \<open>String.prototype.trim\<close> and the regular expression class
  \<open>\s\<close> treat exactly TAB, LF, VT, FF, CR, SPACE and NBSP as white space.
\<close>

definition is_ws :: "char \<Rightarrow> bool" where
  "is_ws c = (c \<in> set [CHR 0x09, CHR 0x0A, CHR 0x0B, CHR 0x0C, CHR 0x0D, CHR 0x20, CHR 0xA0])"

text \<open>\<open>s.trim()\<close>: white space removed at both ends.\<close>

definition trim :: "string \<Rightarrow> string" where
  "trim s = rev (dropWhile is_ws (rev (dropWhile is_ws s)))"

text \<open>\<open>s.startsWith(p)\<close>.\<close>

definition startsWith :: "string \<Rightarrow> string \<Rightarrow> bool" where
  "startsWith s p = (take (length p) s = p)"

text \<open>\<open>s.substring(i)\<close> and \<open>s.substring(i, j)\<close> for indices \<open>0 \<le> i \<le> j\<close>.\<close>

definition substring_from :: "string \<Rightarrow> nat \<Rightarrow> string" where
  "substring_from s i = drop i s"

definition substring :: "string \<Rightarrow> nat \<Rightarrow> nat \<Rightarrow> string" where
  "substring s i j = take (j - i) (drop i s)"

text \<open>\<open>s.indexOf(c)\<close> for a one-character needle: the first position, or \<open>-1\<close>.\<close>

fun indexOf :: "string \<Rightarrow> char \<Rightarrow> int" where
  "indexOf [] c = -1"
| "indexOf (x # xs) c =
     (if x = c then 0 else (let i = indexOf xs c in if i = -1 then -1 else i + 1))"

text \<open>
  \<open>s.split(/\s+/)\<close>: the pieces of \<open>s\<close> between maximal runs of white space. The empty
  string gives one empty piece; a string that starts (ends) with white space gives an
  empty first (last) piece.
\<close>

function split_ws :: "string \<Rightarrow> string list" where
  "split_ws s =
     (if dropWhile (\<lambda>c. \<not> is_ws c) s = [] then [s]
      else takeWhile (\<lambda>c. \<not> is_ws c) s
             # split_ws (dropWhile is_ws (dropWhile (\<lambda>c. \<not> is_ws c) s)))"
  by pat_completeness auto
termination
proof (relation "measure length", simp)
  fix s :: string
  assume ne: "dropWhile (\<lambda>c. \<not> is_ws c) s \<noteq> []"
  then obtain c r where r: "dropWhile (\<lambda>c. \<not> is_ws c) s = c # r"
    by (cases "dropWhile (\<lambda>c. \<not> is_ws c) s") auto
  have "is_ws c"
    using hd_dropWhile [OF ne] r by simp
  then have "length (dropWhile is_ws (c # r)) \<le> length r"
    by (simp add: length_dropWhile_le)
  moreover have "length (c # r) \<le> length s"
    using length_dropWhile_le [of "\<lambda>c. \<not> is_ws c" s] r by simp
  ultimately show "(dropWhile is_ws (dropWhile (\<lambda>c. \<not> is_ws c) s), s) \<in> measure length"
    using r by simp
qed

declare split_ws.simps [simp del]

record ParsedCommand =
  extensionId :: string
  command :: string
  args :: "string list"
  raw :: string

definition isCommand :: "string \<Rightarrow> bool" where
  "isCommand input = startsWith (trim input) ''/''"

definition parseCommand :: "string \<Rightarrow> ParsedCommand option" where
  "parseCommand input =
     (let trimmed = trim input in
      if \<not> isCommand trimmed then None
      else
        let withoutSlash = substring_from trimmed 1;
            parts = split_ws withoutSlash
        in if length parts = 0 then None
           else (case parts of
                   [] \<Rightarrow> None
                 | firstPart # args' \<Rightarrow>
                     (let dashIndex = indexOf firstPart (CHR ''-'') in
                      if dashIndex = -1
                      then Some \<lparr>extensionId = firstPart, command = ''default'',
                                 args = args', raw = input\<rparr>
                      else Some \<lparr>extensionId = substring firstPart 0 (nat dashIndex),
                                 command = substring_from firstPart (nat (dashIndex + 1)),
                                 args = args', raw = input\<rparr>)))"

text \<open>\<open>isValidCommand\<close>: the argument is the parser's result, \<open>null\<close> being \<open>None\<close>.\<close>

definition isValidCommand :: "ParsedCommand option \<Rightarrow> bool" where
  "isValidCommand parsed =
     (case parsed of
        None \<Rightarrow> False
      | Some p \<Rightarrow> length (extensionId p) > 0 \<and> length (command p) > 0)"

section \<open>JavaScript values\<close>

text \<open>
  Values of type \<open>any\<close> (the result of \<open>JSON.parse\<close>, the argument of
  \<open>isValidManifest\<close>). An object is the list of its own properties.
\<close>

datatype jsval =
    JUndefined
  | JNull
  | JBool bool
  | JNum real
  | JStr string
  | JArr "jsval list"
  | JObj "(string \<times> jsval) list"

fun js_truthy :: "jsval \<Rightarrow> bool" where
  "js_truthy JUndefined = False"
| "js_truthy JNull = False"
| "js_truthy (JBool b) = b"
| "js_truthy (JNum n) = (n \<noteq> 0)"
| "js_truthy (JStr s) = (s \<noteq> [])"
| "js_truthy (JArr xs) = True"
| "js_truthy (JObj ps) = True"

fun js_typeof :: "jsval \<Rightarrow> string" where
  "js_typeof JUndefined = ''undefined''"
| "js_typeof JNull = ''object''"
| "js_typeof (JBool b) = ''boolean''"
| "js_typeof (JNum n) = ''number''"
| "js_typeof (JStr s) = ''string''"
| "js_typeof (JArr xs) = ''object''"
| "js_typeof (JObj ps) = ''object''"

text \<open>
  The property read \<open>v.k\<close> on a value that is neither \<open>null\<close> nor \<open>undefined\<close>,
  for the property names this program reads (\<open>manifest\<close>, \<open>id\<close>, \<open>name\<close>,
  \<open>description\<close>, \<open>icon\<close>, \<open>publicUrl\<close>, \<open>version\<close>, \<open>commands\<close>): none of them
  is defined on a primitive or on an array, so only an object can hold one.
\<close>

fun js_get :: "jsval \<Rightarrow> string \<Rightarrow> jsval" where
  "js_get (JObj ps) k = (case map_of ps k of None \<Rightarrow> JUndefined | Some v \<Rightarrow> v)"
| "js_get v k = JUndefined"

fun js_isArray :: "jsval \<Rightarrow> bool" where
  "js_isArray (JArr xs) = True"
| "js_isArray v = False"

text \<open>
  \<open>isValidManifest\<close> (the same text in both versions of the manager). The leading
  \<open>manifest &&\<close> keeps the property reads away from \<open>null\<close> and \<open>undefined\<close>; the
  result is used as a condition only.
\<close>

definition isValidManifest :: "jsval \<Rightarrow> bool" where
  "isValidManifest manifest =
     (js_truthy manifest \<and>
      js_typeof (js_get manifest ''id'') = ''string'' \<and>
      js_typeof (js_get manifest ''name'') = ''string'' \<and>
      js_typeof (js_get manifest ''description'') = ''string'' \<and>
      js_typeof (js_get manifest ''icon'') = ''string'' \<and>
      js_typeof (js_get manifest ''publicUrl'') = ''string'' \<and>
      js_typeof (js_get manifest ''version'') = ''string'' \<and>
      js_isArray (js_get manifest ''commands''))"

section \<open>Extension types (unnamed/part_002)\<close>

record ExtensionCommand =
  cmd_name :: string
  cmd_syntax :: string
  cmd_description :: string

record ExtensionManifest =
  m_id :: string
  m_name :: string
  m_version :: string
  m_description :: string
  m_author :: string
  m_publicUrl :: string
  m_icon :: string
  m_commands :: "ExtensionCommand list"

record ExtensionOffer =
  manifest :: ExtensionManifest
  timestamp :: int
  peerIds :: "string list"

record InstalledExtension =
  inst_manifest :: ExtensionManifest
  installDate :: int
  enabled :: bool
  inst_peerIds :: "string list"
  lastSuccessfulPeerId :: "string option"

text \<open>The object that \<open>fetchManifest\<close> builds, as the value \<open>isValidManifest\<close> inspects.\<close>

definition js_of_command :: "ExtensionCommand \<Rightarrow> jsval" where
  "js_of_command c =
     JObj [(''name'', JStr (cmd_name c)), (''syntax'', JStr (cmd_syntax c)),
           (''description'', JStr (cmd_description c))]"

definition js_of_manifest :: "ExtensionManifest \<Rightarrow> jsval" where
  "js_of_manifest m =
     JObj [(''id'', JStr (m_id m)), (''name'', JStr (m_name m)),
           (''version'', JStr (m_version m)), (''description'', JStr (m_description m)),
           (''author'', JStr (m_author m)), (''publicUrl'', JStr (m_publicUrl m)),
           (''icon'', JStr (m_icon m)),
           (''commands'', JArr (map js_of_command (m_commands m)))]"

definition getExtensionProtocol :: "string \<Rightarrow> string \<Rightarrow> string" where
  "getExtensionProtocol extId version =
     ''/uc/extension/'' @ extId @ ''/'' @ version"

section \<open>Wire messages\<close>

text \<open>
  Modelled from the spec: the protobuf message types of \<open>lib/protobuf/extension\<close>, which
  is not among the sources. Section 6 of the specification gives their fields; a field
  the sender left out arrives as \<open>None\<close>.
\<close>

record pb_ExtensionCommand =
  pb_name :: "string option"
  pb_syntax :: "string option"
  pb_description :: "string option"

record pb_Manifest =
  pb_id :: "string option"
  pb_m_name :: "string option"
  pb_version :: "string option"
  pb_m_description :: "string option"
  pb_author :: "string option"
  pb_publicUrl :: "string option"
  pb_icon :: "string option"
  pb_commands :: "pb_ExtensionCommand list option"

record pb_ManifestResponse =
  mr_manifest :: "pb_Manifest option"

record pb_CommandResponse =
  cr_requestId :: string
  cr_success :: bool
  cr_data :: "string option"
  cr_error :: "string option"

record pb_Response =
  payload :: "string option"
  resp_manifest :: "pb_ManifestResponse option"
  resp_command :: "pb_CommandResponse option"

text \<open>\<open>x || d\<close> on an optional string: \<open>undefined\<close> and the empty string are falsy.\<close>

definition str_or :: "string option \<Rightarrow> string \<Rightarrow> string" where
  "str_or x d = (case x of None \<Rightarrow> d | Some s \<Rightarrow> if s \<noteq> [] then s else d)"

text \<open>\<open>response.payload === p || !response.payload\<close>.\<close>

definition payload_is :: "pb_Response \<Rightarrow> string \<Rightarrow> bool" where
  "payload_is response p =
     (payload response = Some p \<or> payload response = None \<or> payload response = Some [])"

section \<open>Extension manager, identify-based discovery (unnamed/part_001)\<close>

text \<open>
  The two JavaScript \<open>Map\<close>s are association lists in insertion order, each key once:
  \<open>Map.set\<close> is \<^const>\<open>AList.update\<close> (an existing key keeps its place, a new key
  goes to the end), \<open>Map.delete\<close> is \<^const>\<open>AList.delete\<close>, \<open>Map.get\<close> is
  \<^const>\<open>map_of\<close>. \<open>Date.now()\<close> is the argument \<open>now\<close>. Writing to local storage
  and notifying the listeners change neither map and are left out. An offer object is
  reachable through the map only, and \<open>installExtension\<close> copies the peer list, so
  updating a field in place is updating the entry of the map.
\<close>

record manager =
  offers :: "(string \<times> ExtensionOffer) list"
  installed :: "(string \<times> InstalledExtension) list"

definition isInstalled :: "manager \<Rightarrow> string \<Rightarrow> bool" where
  "isInstalled st extId = (map_of (installed st) extId \<noteq> None)"

definition getExtension :: "manager \<Rightarrow> string \<Rightarrow> InstalledExtension option" where
  "getExtension st extId = map_of (installed st) extId"

definition updateInstalledPeers :: "string \<Rightarrow> string \<Rightarrow> manager \<Rightarrow> manager" where
  "updateInstalledPeers extId peerId st =
     (case map_of (installed st) extId of
        None \<Rightarrow> st
      | Some ext \<Rightarrow>
          if peerId \<notin> set (inst_peerIds ext)
          then st\<lparr>installed :=
                    AList.update extId (ext\<lparr>inst_peerIds := inst_peerIds ext @ [peerId]\<rparr>)
                      (installed st)\<rparr>
          else st)"

text \<open>
  \<open>fetchManifest\<close>: the argument is what the stream did, \<open>Inl\<close> the message of the error
  that dialling, writing or reading threw, \<open>Inr\<close> the response read. The stream is closed
  in either case.
\<close>

definition convert_command :: "pb_ExtensionCommand \<Rightarrow> ExtensionCommand" where
  "convert_command cmd =
     \<lparr>cmd_name = str_or (pb_name cmd) [], cmd_syntax = str_or (pb_syntax cmd) [],
      cmd_description = str_or (pb_description cmd) []\<rparr>"

definition convert_manifest :: "pb_Manifest \<Rightarrow> ExtensionManifest" where
  "convert_manifest manifestData =
     \<lparr>m_id = str_or (pb_id manifestData) [],
      m_name = str_or (pb_m_name manifestData) [],
      m_version = str_or (pb_version manifestData) [],
      m_description = str_or (pb_m_description manifestData) [],
      m_author = str_or (pb_author manifestData) [],
      m_publicUrl = str_or (pb_publicUrl manifestData) [],
      m_icon = str_or (pb_icon manifestData) [],
      m_commands =
        map convert_command
          (case pb_commands manifestData of None \<Rightarrow> [] | Some cs \<Rightarrow> cs)\<rparr>"

definition fetchManifest :: "string + pb_Response \<Rightarrow> string + ExtensionManifest" where
  "fetchManifest exchange =
     (case exchange of
        Inl err \<Rightarrow> Inl err
      | Inr response \<Rightarrow>
          (case resp_manifest response of
             Some mr \<Rightarrow>
               (case mr_manifest mr of
                  Some manifestData \<Rightarrow>
                    if payload_is response ''manifest''
                    then Inr (convert_manifest manifestData)
                    else Inl ''Invalid manifest response''
                | None \<Rightarrow> Inl ''Invalid manifest response'')
           | None \<Rightarrow> Inl ''Invalid manifest response''))"

text \<open>
  \<open>handleExtensionDiscovery\<close>, run without interleaving: \<open>exchange\<close> is the outcome of the
  manifest fetch, used only when neither an offer nor an installation exists.
\<close>

definition handleExtensionDiscovery ::
  "int \<Rightarrow> (string + pb_Response) \<Rightarrow> string \<Rightarrow> string \<Rightarrow> manager \<Rightarrow> manager" where
  "handleExtensionDiscovery now exchange peerId extId st =
     (case map_of (offers st) extId of
        Some existingOffer \<Rightarrow>
          updateInstalledPeers extId peerId
            (if peerId \<notin> set (peerIds existingOffer)
             then st\<lparr>offers :=
                       AList.update extId
                         (existingOffer\<lparr>peerIds := peerIds existingOffer @ [peerId],
                                        timestamp := now\<rparr>)
                         (offers st)\<rparr>
             else st)
      | None \<Rightarrow>
          if isInstalled st extId then updateInstalledPeers extId peerId st
          else (case fetchManifest exchange of
                  Inl err \<Rightarrow> st
                | Inr mf \<Rightarrow>
                    if \<not> isValidManifest (js_of_manifest mf) then st
                    else st\<lparr>offers :=
                              AList.update extId
                                \<lparr>manifest = mf, timestamp = now, peerIds = [peerId]\<rparr>
                                (offers st)\<rparr>))"

definition installExtension :: "int \<Rightarrow> string \<Rightarrow> manager \<Rightarrow> bool \<times> manager" where
  "installExtension now extId st =
     (case map_of (offers st) extId of
        None \<Rightarrow> (False, st)
      | Some offer \<Rightarrow>
          if isInstalled st extId then (False, st)
          else
            let installedExtension =
                  \<lparr>inst_manifest = manifest offer, installDate = now, enabled = True,
                   inst_peerIds = peerIds offer, lastSuccessfulPeerId = None\<rparr>
            in (True,
                st\<lparr>installed := AList.update extId installedExtension (installed st),
                   offers := AList.delete extId (offers st)\<rparr>))"

definition uninstallExtension :: "string \<Rightarrow> manager \<Rightarrow> bool \<times> manager" where
  "uninstallExtension extId st =
     (if \<not> isInstalled st extId then (False, st)
      else (True, st\<lparr>installed := AList.delete extId (installed st)\<rparr>))"

text \<open>
  \<open>getExtensionPeers\<close>: the test \<open>lastSuccessfulPeerId && \<dots>\<close> is false for
  \<open>undefined\<close> and for the empty string.
\<close>

definition getExtensionPeers :: "manager \<Rightarrow> string \<Rightarrow> string list" where
  "getExtensionPeers st extId =
     (case map_of (installed st) extId of
        None \<Rightarrow> []
      | Some ext \<Rightarrow>
          (case lastSuccessfulPeerId ext of
             Some l \<Rightarrow>
               if l \<noteq> [] \<and> l \<in> set (inst_peerIds ext)
               then l # filter (\<lambda>p. p \<noteq> l) (inst_peerIds ext)
               else inst_peerIds ext
           | None \<Rightarrow> inst_peerIds ext))"

definition markPeerSuccess :: "string \<Rightarrow> string \<Rightarrow> manager \<Rightarrow> manager" where
  "markPeerSuccess extId peerId st =
     (case map_of (installed st) extId of
        None \<Rightarrow> st
      | Some ext \<Rightarrow>
          st\<lparr>installed :=
               AList.update extId (ext\<lparr>lastSuccessfulPeerId := Some peerId\<rparr>) (installed st)\<rparr>)"

definition removePeer_installed :: "string \<Rightarrow> string \<Rightarrow> manager \<Rightarrow> manager" where
  "removePeer_installed extId peerId st =
     (case map_of (installed st) extId of
        None \<Rightarrow> st
      | Some ext \<Rightarrow>
          st\<lparr>installed :=
               AList.update extId
                 (ext\<lparr>inst_peerIds := filter (\<lambda>p. p \<noteq> peerId) (inst_peerIds ext),
                      lastSuccessfulPeerId :=
                        (if lastSuccessfulPeerId ext = Some peerId then None
                         else lastSuccessfulPeerId ext)\<rparr>)
                 (installed st)\<rparr>)"

definition removePeer_offer :: "string \<Rightarrow> string \<Rightarrow> manager \<Rightarrow> manager" where
  "removePeer_offer extId peerId st =
     (case map_of (offers st) extId of
        None \<Rightarrow> st
      | Some offer \<Rightarrow>
          let offer' = offer\<lparr>peerIds := filter (\<lambda>p. p \<noteq> peerId) (peerIds offer)\<rparr> in
          if length (peerIds offer') = 0
          then st\<lparr>offers := AList.delete extId (offers st)\<rparr>
          else st\<lparr>offers := AList.update extId offer' (offers st)\<rparr>)"

definition removePeer :: "string \<Rightarrow> string \<Rightarrow> manager \<Rightarrow> manager" where
  "removePeer extId peerId st = removePeer_offer extId peerId (removePeer_installed extId peerId st)"

definition setExtensionEnabled :: "string \<Rightarrow> bool \<Rightarrow> manager \<Rightarrow> bool \<times> manager" where
  "setExtensionEnabled extId b st =
     (case map_of (installed st) extId of
        None \<Rightarrow> (False, st)
      | Some ext \<Rightarrow>
          (True, st\<lparr>installed := AList.update extId (ext\<lparr>enabled := b\<rparr>) (installed st)\<rparr>))"

definition dismissOffer :: "string \<Rightarrow> manager \<Rightarrow> manager" where
  "dismissOffer extId st = st\<lparr>offers := AList.delete extId (offers st)\<rparr>"

section \<open>Command execution over direct streams (js-peer/src/lib/extension-protocol.ts)\<close>

text \<open>
  The second \<open>ExtensionProtocol\<close> class of the file, the one that asks the manager for
  the peers of an extension. What the outside world does is the record \<open>network\<close>: the
  identifier \<open>uuidv4()\<close> returns and the time \<open>Date.now()\<close> shows at the \<open>n\<close>-th
  attempt, what the stream to a peer does with a request (\<open>Inl\<close> the message of the
  error thrown by dialling, writing or reading, \<open>Inr\<close> the response read), and
  \<open>JSON.parse\<close> (\<open>Inl\<close> the message of its \<open>SyntaxError\<close>).
\<close>

record CommandRequest =
  req_requestId :: string
  req_extensionId :: string
  req_command :: string
  req_args :: "string list"
  req_timestamp :: int

record CommandResult =
  success :: bool
  data :: jsval

record network =
  uuidv4 :: "nat \<Rightarrow> string"
  clock :: "nat \<Rightarrow> int"
  exchange :: "nat \<Rightarrow> string \<Rightarrow> string \<Rightarrow> CommandRequest \<Rightarrow> string + pb_Response"
  json_parse :: "string \<Rightarrow> string + jsval"

definition executeOnPeer ::
  "network \<Rightarrow> nat \<Rightarrow> string \<Rightarrow> string \<Rightarrow> string \<Rightarrow> string \<Rightarrow> string list
     \<Rightarrow> string + CommandResult" where
  "executeOnPeer net n peerId protocol extId cmd as =
     (let requestId = uuidv4 net n;
          request = \<lparr>req_requestId = requestId, req_extensionId = extId, req_command = cmd,
                     req_args = as, req_timestamp = clock net n\<rparr>
      in case exchange net n peerId protocol request of
           Inl err \<Rightarrow> Inl err
         | Inr response \<Rightarrow>
             (case resp_command response of
                None \<Rightarrow> Inl ''Invalid response''
              | Some c \<Rightarrow>
                  if payload_is response ''command'' \<and> cr_requestId c = requestId
                  then
                    if cr_success c
                    then (case cr_data c of
                            None \<Rightarrow> Inr \<lparr>success = True, data = JUndefined\<rparr>
                          | Some d \<Rightarrow>
                              if d = [] then Inr \<lparr>success = True, data = JUndefined\<rparr>
                              else (case json_parse net d of
                                      Inl err \<Rightarrow> Inl err
                                    | Inr v \<Rightarrow> Inr \<lparr>success = True, data = v\<rparr>))
                    else Inl (str_or (cr_error c) ''Command failed'')
                  else Inl ''Invalid response''))"

text \<open>\<open>peerId.slice(-8)\<close> and \<open>errors.join(sep)\<close>.\<close>

definition slice_last8 :: "string \<Rightarrow> string" where
  "slice_last8 s = drop (length s - 8) s"

fun join :: "string \<Rightarrow> string list \<Rightarrow> string" where
  "join sep [] = []"
| "join sep [x] = x"
| "join sep (x # y # ys) = x @ sep @ join sep (y # ys)"

definition not_installed_error :: "string \<Rightarrow> string" where
  "not_installed_error extId =
     ''Extension '' @ [CHR 0x27] @ extId @ [CHR 0x27] @ '' is not installed''"

definition no_peers_error :: "string \<Rightarrow> string" where
  "no_peers_error extId =
     ''No peers available for extension '' @ [CHR 0x27] @ extId @ [CHR 0x27]"

definition all_failed_error :: "string \<Rightarrow> string list \<Rightarrow> string" where
  "all_failed_error extId errors =
     ''All peers failed for extension '' @ [CHR 0x27] @ extId @ [CHR 0x27] @ '':''
       @ [CHR 0x0A] @ join [CHR 0x0A] errors"

text \<open>
  The loop of \<open>executeCommand\<close> over the candidate peers: \<open>n\<close> counts the attempts,
  \<open>errors\<close> collects the failures, \<open>dialed\<close> lists the peers a stream was requested
  to, in order. The result is what \<open>executeCommand\<close> returns (\<open>Inr\<close>) or the message
  of the error it throws (\<open>Inl\<close>), with the manager and the list of dialled peers.
\<close>

fun try_peers ::
  "network \<Rightarrow> string \<Rightarrow> string \<Rightarrow> string \<Rightarrow> string list \<Rightarrow> nat \<Rightarrow> string list
     \<Rightarrow> string list \<Rightarrow> string list \<Rightarrow> manager
     \<Rightarrow> (string + CommandResult) \<times> manager \<times> string list" where
  "try_peers net protocol extId cmd as n [] errors dialed st =
     (Inl (all_failed_error extId errors), st, dialed)"
| "try_peers net protocol extId cmd as n (peerId # rest) errors dialed st =
     (case executeOnPeer net n peerId protocol extId cmd as of
        Inr response \<Rightarrow> (Inr response, markPeerSuccess extId peerId st, dialed @ [peerId])
      | Inl msg \<Rightarrow>
          try_peers net protocol extId cmd as (Suc n) rest
            (errors @ [slice_last8 peerId @ '': '' @ msg]) (dialed @ [peerId]) st)"

definition executeCommand ::
  "network \<Rightarrow> string \<Rightarrow> string \<Rightarrow> string list \<Rightarrow> manager
     \<Rightarrow> (string + CommandResult) \<times> manager \<times> string list" where
  "executeCommand net extId cmd as st =
     (case getExtension st extId of
        None \<Rightarrow> (Inl (not_installed_error extId), st, [])
      | Some extension \<Rightarrow>
          let candidates = getExtensionPeers st extId in
          if length candidates = 0 then (Inl (no_peers_error extId), st, [])
          else
            let protocol = getExtensionProtocol extId (m_version (inst_manifest extension))
            in try_peers net protocol extId cmd as 0 candidates [] [] st)"

section \<open>Extension manager, pubsub-based discovery (unnamed/part_000)\<close>

text \<open>
  This version keeps one publisher per offer and the manifest as it was parsed from the
  discovery message. It is the only one with a limit on the number of offers.
\<close>

record PubsubOffer =
  po_manifest :: jsval
  po_timestamp :: int
  publisherPeerId :: string

record PubsubInstalled =
  pi_manifest :: jsval
  pi_installDate :: int
  pi_enabled :: bool

record pubsub_manager =
  p_offers :: "(string \<times> PubsubOffer) list"
  p_installed :: "(string \<times> PubsubInstalled) list"

definition MAX_OFFERS :: nat where
  "MAX_OFFERS = 10"

definition p_isInstalled :: "pubsub_manager \<Rightarrow> string \<Rightarrow> bool" where
  "p_isInstalled st extId = (map_of (p_installed st) extId \<noteq> None)"

text \<open>
  \<open>Array.from(this.offers.entries()).sort((a, b) => a[1].timestamp - b[1].timestamp)[0][0]\<close>:
  the sort is stable, so among the entries with the least timestamp the first of the map
  comes first.
\<close>

definition oldestKey :: "(string \<times> PubsubOffer) list \<Rightarrow> string" where
  "oldestKey entries = fst (hd (sort_key (\<lambda>e. po_timestamp (snd e)) entries))"

definition limit_offers :: "(string \<times> PubsubOffer) list \<Rightarrow> (string \<times> PubsubOffer) list" where
  "limit_offers entries =
     (if length entries > MAX_OFFERS then AList.delete (oldestKey entries) entries
      else entries)"

definition handleExtensionOffer ::
  "jsval \<Rightarrow> string \<Rightarrow> int \<Rightarrow> pubsub_manager \<Rightarrow> pubsub_manager" where
  "handleExtensionOffer message publisher now st =
     (let mf = js_get message ''manifest'' in
      if \<not> isValidManifest mf then st
      else (case js_get mf ''id'' of
              JStr mid \<Rightarrow>
                if p_isInstalled st mid then st
                else
                  let offer = \<lparr>po_manifest = mf, po_timestamp = now,
                               publisherPeerId = publisher\<rparr>
                  in st\<lparr>p_offers := limit_offers (AList.update mid offer (p_offers st))\<rparr>
            | _ \<Rightarrow> st))"

definition p_installExtension :: "int \<Rightarrow> string \<Rightarrow> pubsub_manager \<Rightarrow> bool \<times> pubsub_manager" where
  "p_installExtension now extId st =
     (case map_of (p_offers st) extId of
        None \<Rightarrow> (False, st)
      | Some offer \<Rightarrow>
          if p_isInstalled st extId then (False, st)
          else
            (True,
             st\<lparr>p_installed :=
                  AList.update extId
                    \<lparr>pi_manifest = po_manifest offer, pi_installDate = now, pi_enabled = True\<rparr>
                    (p_installed st),
                p_offers := AList.delete extId (p_offers st)\<rparr>))"

definition p_uninstallExtension :: "string \<Rightarrow> pubsub_manager \<Rightarrow> bool \<times> pubsub_manager" where
  "p_uninstallExtension extId st =
     (if \<not> p_isInstalled st extId then (False, st)
      else (True, st\<lparr>p_installed := AList.delete extId (p_installed st)\<rparr>))"

definition p_setExtensionEnabled ::
  "string \<Rightarrow> bool \<Rightarrow> pubsub_manager \<Rightarrow> bool \<times> pubsub_manager" where
  "p_setExtensionEnabled extId b st =
     (case map_of (p_installed st) extId of
        None \<Rightarrow> (False, st)
      | Some ext \<Rightarrow>
          (True, st\<lparr>p_installed := AList.update extId (ext\<lparr>pi_enabled := b\<rparr>) (p_installed st)\<rparr>))"

definition p_dismissOffer :: "string \<Rightarrow> pubsub_manager \<Rightarrow> pubsub_manager" where
  "p_dismissOffer extId st = st\<lparr>p_offers := AList.delete extId (p_offers st)\<rparr>"

text \<open>
  The states of the pubsub-based manager: it starts with no offers and the installations
  found in local storage, and changes by its public operations and by discovery messages.
\<close>

inductive reachable :: "pubsub_manager \<Rightarrow> bool" where
  init: "reachable \<lparr>p_offers = [], p_installed = stored\<rparr>"
| offer: "reachable st \<Longrightarrow> reachable (handleExtensionOffer message publisher now st)"
| install: "reachable st \<Longrightarrow> reachable (snd (p_installExtension now extId st))"
| uninstall: "reachable st \<Longrightarrow> reachable (snd (p_uninstallExtension extId st))"
| enable: "reachable st \<Longrightarrow> reachable (snd (p_setExtensionEnabled extId b st))"
| dismiss: "reachable st \<Longrightarrow> reachable (p_dismissOffer extId st)"

text \<open>The invariant of the offers map of the pubsub-based manager.\<close>

definition offers_inv :: "pubsub_manager \<Rightarrow> bool" where
  "offers_inv st = (length (p_offers st) \<le> MAX_OFFERS \<and> distinct (map fst (p_offers st)))"

section \<open>Example data\<close>

definition sheet_manifest :: ExtensionManifest where
  "sheet_manifest =
     \<lparr>m_id = ''sheet'', m_name = ''Sheet'', m_version = ''1.0.0'',
      m_description = ''Shared spreadsheet'', m_author = [],
      m_publicUrl = ''https://example.org/sheet'', m_icon = [],
      m_commands = [\<lparr>cmd_name = ''write'', cmd_syntax = ''/sheet-write <doc> <cell>=<value>'',
                      cmd_description = ''Write a cell''\<rparr>]\<rparr>"

definition sheet_offered :: manager where
  "sheet_offered =
     \<lparr>offers = [(''sheet'', \<lparr>manifest = sheet_manifest, timestamp = 1000,
                              peerIds = [''peerA'', ''peerB'']\<rparr>)],
      installed = []\<rparr>"

definition sheet_installed :: manager where
  "sheet_installed =
     \<lparr>offers = [],
      installed = [(''sheet'', \<lparr>inst_manifest = sheet_manifest, installDate = 1500,
                                 enabled = True, inst_peerIds = [''peerA'', ''peerB''],
                                 lastSuccessfulPeerId = Some ''peerB''\<rparr>)]\<rparr>"

definition sheet_without_peers :: manager where
  "sheet_without_peers =
     \<lparr>offers = [],
      installed = [(''sheet'', \<lparr>inst_manifest = sheet_manifest, installDate = 1500,
                                 enabled = True, inst_peerIds = [],
                                 lastSuccessfulPeerId = Some ''peerB''\<rparr>)]\<rparr>"

text \<open>
  A network on which peer A cannot be dialled and every other peer answers the request
  with a failure.
\<close>

definition failing_network :: network where
  "failing_network =
     \<lparr>uuidv4 = (\<lambda>n. ''request''),
      clock = (\<lambda>n. 2000),
      exchange = (\<lambda>n peerId protocol request.
        if peerId = ''peerA'' then Inl ''dial timeout''
        else Inr \<lparr>payload = Some ''command'', resp_manifest = None,
                  resp_command = Some \<lparr>cr_requestId = req_requestId request,
                                        cr_success = False, cr_data = None,
                                        cr_error = Some ''unknown command''\<rparr>\<rparr>),
      json_parse = (\<lambda>s. Inl ''SyntaxError'')\<rparr>"

text \<open>A manifest response as a peer sends it, and a discovery message of the pubsub variant.\<close>

definition manifest_response :: "string \<Rightarrow> pb_Response" where
  "manifest_response extId =
     \<lparr>payload = Some ''manifest'',
      resp_manifest = Some \<lparr>mr_manifest = Some
        \<lparr>pb_id = Some extId, pb_m_name = Some ''Extension'', pb_version = Some ''1.0.0'',
         pb_m_description = Some ''An extension'', pb_author = None,
         pb_publicUrl = Some ''https://example.org'', pb_icon = None,
         pb_commands = Some []\<rparr>\<rparr>,
      resp_command = None\<rparr>"

definition offer_message :: "string \<Rightarrow> jsval" where
  "offer_message extId =
     JObj [(''type'', JStr ''offer''),
           (''manifest'',
            JObj [(''id'', JStr extId), (''name'', JStr ''Extension''),
                  (''description'', JStr ''An extension''), (''icon'', JStr []),
                  (''publicUrl'', JStr ''https://example.org''), (''version'', JStr ''1.0.0''),
                  (''commands'', JArr [])]),
           (''timestamp'', JNum 1)]"

definition eleven_ids :: "string list" where
  "eleven_ids = [''e01'', ''e02'', ''e03'', ''e04'', ''e05'', ''e06'', ''e07'', ''e08'', ''e09'',
                 ''e10'', ''e11'']"

text \<open>
  Eleven extensions discovered one after the other by the identify-based manager, and
  the first ten of them announced to the pubsub-based manager at the times 1 to 10.
\<close>

definition eleven_discovered :: manager where
  "eleven_discovered =
     fold (\<lambda>extId. handleExtensionDiscovery 1 (Inr (manifest_response extId)) ''peerA'' extId)
       eleven_ids \<lparr>offers = [], installed = []\<rparr>"

definition ten_offered :: pubsub_manager where
  "ten_offered =
     fold (\<lambda>(extId, now). handleExtensionOffer (offer_message extId) ''peerA'' now)
       (zip (take 10 eleven_ids) [1, 2, 3, 4, 5, 6, 7, 8, 9, 10])
       \<lparr>p_offers = [], p_installed = []\<rparr>"

section \<open>Properties of the command parser\<close>

lemma dropWhile_hd_id: "xs = [] \<or> \<not> P (hd xs) \<Longrightarrow> dropWhile P xs = xs"
  by (cases xs) auto

lemma trim_no_leading_ws: "trim s = [] \<or> \<not> is_ws (hd (trim s))"
proof -
  let ?w = "dropWhile is_ws s"
  let ?u = "dropWhile is_ws (rev ?w)"
  have w: "?w = rev ?u @ rev (takeWhile is_ws (rev ?w))"
    by (metis rev_append rev_rev_ident takeWhile_dropWhile_id)
  show ?thesis
  proof (cases "?u = []")
    case True then show ?thesis by (simp add: trim_def)
  next
    case False
    then have "hd ?w = hd (rev ?u)" using w by (metis hd_append2 rev_is_Nil_conv)
    moreover have "?w \<noteq> []" using False by (metis dropWhile.simps(1) rev.simps(1))
    ultimately have "\<not> is_ws (hd (rev ?u))" using hd_dropWhile [of is_ws s] by simp
    then show ?thesis by (simp add: trim_def)
  qed
qed

lemma trim_idem: "trim (trim s) = trim s"
proof -
  have a: "dropWhile is_ws (trim s) = trim s"
    by (rule dropWhile_hd_id) (rule trim_no_leading_ws)
  have b: "dropWhile is_ws (rev (trim s)) = rev (trim s)"
    unfolding trim_def rev_rev_ident by (rule dropWhile_idem)
  show ?thesis
    by (subst trim_def) (simp only: a b rev_rev_ident)
qed

lemma indexOf_ge: "indexOf s c \<ge> -1"
  by (induction s) (auto simp: Let_def)

lemma indexOf_m1: "indexOf s c = -1 \<longleftrightarrow> c \<notin> set s"
proof (induction s)
  case Nil show ?case by simp
next
  case (Cons x xs)
  have "indexOf xs c + 1 \<noteq> -1" using indexOf_ge[of xs c] by arith
  with Cons show ?case by (simp add: Let_def)
qed

lemma indexOf_tw: "c \<in> set s \<Longrightarrow> indexOf s c = int (length (takeWhile (\<lambda>x. x \<noteq> c) s))"
proof (induction s)
  case Nil then show ?case by simp
next
  case (Cons x xs)
  show ?case
  proof (cases "x = c")
    case True then show ?thesis by simp
  next
    case False
    with Cons.prems have "c \<in> set xs" by simp
    with Cons.IH indexOf_m1[of xs c] False show ?thesis by (simp add: Let_def)
  qed
qed

lemma split_ws_ne: "split_ws s \<noteq> []"
  by (subst split_ws.simps) simp

lemma split_ws_last: "\<forall>c\<in>set s. \<not> is_ws c \<Longrightarrow> split_ws s = [s]"
  by (subst split_ws.simps) simp

lemma split_ws_step: "dropWhile (\<lambda>c. \<not> is_ws c) s \<noteq> [] \<Longrightarrow>
   split_ws s = takeWhile (\<lambda>c. \<not> is_ws c) s # split_ws (dropWhile is_ws (dropWhile (\<lambda>c. \<not> is_ws c) s))"
  by (subst split_ws.simps) (simp only: if_False)

lemma split_ws_no_ws: "t \<in> set (split_ws s) \<Longrightarrow> \<forall>c \<in> set t. \<not> is_ws c"
proof (induction s arbitrary: t rule: split_ws.induct)
  case (1 s)
  show ?case
  proof (cases "dropWhile (\<lambda>c. \<not> is_ws c) s = []")
    case True
    then have all: "\<forall>c\<in>set s. \<not> is_ws c" by simp
    then have "split_ws s = [s]" by (rule split_ws_last)
    with 1(2) have "t = s" by simp
    with all show ?thesis by simp
  next
    case False
    then have eq: "split_ws s = takeWhile (\<lambda>c. \<not> is_ws c) s
             # split_ws (dropWhile is_ws (dropWhile (\<lambda>c. \<not> is_ws c) s))"
      by (rule split_ws_step)
    from 1(2) eq have "t = takeWhile (\<lambda>c. \<not> is_ws c) s
        \<or> t \<in> set (split_ws (dropWhile is_ws (dropWhile (\<lambda>c. \<not> is_ws c) s)))"
      by simp
    then show ?thesis
    proof
      assume "t = takeWhile (\<lambda>c. \<not> is_ws c) s"
      then show ?thesis using set_takeWhileD [of _ "\<lambda>c. \<not> is_ws c" s] by blast
    next
      assume "t \<in> set (split_ws (dropWhile is_ws (dropWhile (\<lambda>c. \<not> is_ws c) s)))"
      then show ?thesis by (rule 1(1)[OF False])
    qed
  qed
qed

lemma filter_dropWhile_same: "filter (\<lambda>c. \<not> P c) (dropWhile P xs) = filter (\<lambda>c. \<not> P c) xs"
  by (induction xs) auto

lemma filter_takeWhile_same: "filter P (takeWhile P xs) = takeWhile P xs"
  by (induction xs) auto

lemma split_ws_concat: "concat (split_ws s) = filter (\<lambda>c. \<not> is_ws c) s"
proof (induction s rule: split_ws.induct)
  case (1 s)
  let ?N = "\<lambda>c. \<not> is_ws c"
  show ?case
  proof (cases "dropWhile ?N s = []")
    case True
    then have all: "\<forall>c\<in>set s. \<not> is_ws c" by simp
    then have "split_ws s = [s]" by (rule split_ws_last)
    with all show ?thesis by simp
  next
    case False
    then have eq: "split_ws s = takeWhile ?N s # split_ws (dropWhile is_ws (dropWhile ?N s))"
      by (rule split_ws_step)
    have "filter ?N s = filter ?N (takeWhile ?N s @ dropWhile ?N s)"
      by (simp only: takeWhile_dropWhile_id)
    also have "\<dots> = takeWhile ?N s @ filter ?N (dropWhile is_ws (dropWhile ?N s))"
      by (simp only: filter_append filter_takeWhile_same filter_dropWhile_same)
    also have "\<dots> = concat (split_ws s)"
      by (simp only: eq concat.simps 1 [OF False])
    finally show ?thesis by (rule sym)
  qed
qed

lemma isCommand_trim: "isCommand (trim input) = isCommand input"
  by (simp add: isCommand_def trim_idem)

lemma head_split:
  "indexOf h (CHR ''-'') \<noteq> -1 \<Longrightarrow>
     substring h 0 (nat (indexOf h (CHR ''-''))) = takeWhile (\<lambda>c. c \<noteq> CHR ''-'') h \<and>
     substring_from h (nat (indexOf h (CHR ''-'') + 1)) = tl (dropWhile (\<lambda>c. c \<noteq> CHR ''-'') h)"
proof -
  assume a: "indexOf h (CHR ''-'') \<noteq> -1"
  let ?P = "\<lambda>c. c \<noteq> CHR ''-''"
  from a have m: "CHR ''-'' \<in> set h" by (simp add: indexOf_m1)
  then have i: "indexOf h (CHR ''-'') = int (length (takeWhile ?P h))" by (rule indexOf_tw)
  have t: "take (length (takeWhile ?P h)) h = takeWhile ?P h"
    by (metis append_eq_conv_conj takeWhile_dropWhile_id)
  have d: "drop (length (takeWhile ?P h)) h = dropWhile ?P h"
    by (metis append_eq_conv_conj takeWhile_dropWhile_id)
  have "drop (Suc (length (takeWhile ?P h))) h = tl (dropWhile ?P h)"
    by (metis d drop_Suc tl_drop)
  then show ?thesis using i t by (simp add: substring_def substring_from_def nat_add_distrib)
qed

text \<open>
  Claim C7. For every input whose trimmed form starts with \<open>/\<close>, the parser splits the
  rest at the runs of white space (no piece contains white space), cuts the first piece
  at its first \<open>-\<close> into extension id and command, with the command \<open>default\<close> when
  there is no \<open>-\<close>, and returns the other pieces as the arguments. The input
  \<open>/sheet-write hackathon A1=25\<close> gives extension id \<open>sheet\<close>, command \<open>write\<close> and
  arguments \<open>hackathon\<close>, \<open>A1=25\<close>.
\<close>

theorem parseCommand_splits_head_and_args:
  "(isCommand input \<longrightarrow>
      (\<exists>head rest.
          split_ws (drop 1 (trim input)) = head # rest \<and>
          (\<forall>t \<in> set (head # rest). \<forall>c \<in> set t. \<not> is_ws c) \<and>
          parseCommand input =
            Some \<lparr>extensionId = takeWhile (\<lambda>c. c \<noteq> CHR ''-'') head,
                  command = (if CHR ''-'' \<in> set head
                             then tl (dropWhile (\<lambda>c. c \<noteq> CHR ''-'') head)
                             else ''default''),
                  args = rest, raw = input\<rparr>)) \<and>
   parseCommand ''/sheet-write hackathon A1=25'' =
     Some \<lparr>extensionId = ''sheet'', command = ''write'',
           args = [''hackathon'', ''A1=25''], raw = ''/sheet-write hackathon A1=25''\<rparr>"
proof (intro conjI impI)
  assume c: "isCommand input"
  obtain head rest where hr: "split_ws (drop 1 (trim input)) = head # rest"
    using split_ws_ne [of "drop 1 (trim input)"] by (cases "split_ws (drop 1 (trim input))") auto
  have nows: "\<forall>t \<in> set (head # rest). \<forall>c \<in> set t. \<not> is_ws c"
    using split_ws_no_ws [of _ "drop 1 (trim input)"] hr by metis
  have p: "parseCommand input =
            Some \<lparr>extensionId = takeWhile (\<lambda>c. c \<noteq> CHR ''-'') head,
                  command = (if CHR ''-'' \<in> set head
                             then tl (dropWhile (\<lambda>c. c \<noteq> CHR ''-'') head)
                             else ''default''),
                  args = rest, raw = input\<rparr>"
  proof (cases "CHR ''-'' \<in> set head")
    case True
    then have "indexOf head (CHR ''-'') \<noteq> -1" by (simp add: indexOf_m1)
    then show ?thesis using c hr True head_split [of head]
      by (simp add: parseCommand_def isCommand_trim substring_from_def Let_def)
  next
    case False
    then have i: "indexOf head (CHR ''-'') = -1" by (simp add: indexOf_m1)
    have "parseCommand input =
            Some \<lparr>extensionId = head, command = ''default'', args = rest, raw = input\<rparr>"
      using c hr i by (simp add: parseCommand_def isCommand_trim substring_from_def Let_def)
    moreover from False have "takeWhile (\<lambda>c. c \<noteq> CHR ''-'') head = head"
      by auto
    ultimately show ?thesis using False by (simp only: if_False)
  qed
  show "\<exists>head rest.
          split_ws (drop 1 (trim input)) = head # rest \<and>
          (\<forall>t \<in> set (head # rest). \<forall>c \<in> set t. \<not> is_ws c) \<and>
          parseCommand input =
            Some \<lparr>extensionId = takeWhile (\<lambda>c. c \<noteq> CHR ''-'') head,
                  command = (if CHR ''-'' \<in> set head
                             then tl (dropWhile (\<lambda>c. c \<noteq> CHR ''-'') head)
                             else ''default''),
                  args = rest, raw = input\<rparr>"
    using hr nows p by blast
next
  show "parseCommand ''/sheet-write hackathon A1=25'' =
     Some \<lparr>extensionId = ''sheet'', command = ''write'',
           args = [''hackathon'', ''A1=25''], raw = ''/sheet-write hackathon A1=25''\<rparr>"
    by code_simp
qed

theorem parseCommand_splits_witness:
  "isCommand ''/foo bar'' \<and>
   parseCommand ''/foo bar'' =
     Some \<lparr>extensionId = ''foo'', command = ''default'', args = [''bar''], raw = ''/foo bar''\<rparr>"
proof -
  have c: "isCommand ''/foo bar''" by code_simp
  have s: "split_ws (drop 1 (trim ''/foo bar'')) = [''foo'', ''bar'']" by code_simp
  from parseCommand_splits_head_and_args [of "''/foo bar''"] c
  obtain head rest where hr: "split_ws (drop 1 (trim ''/foo bar'')) = head # rest"
    and p: "parseCommand ''/foo bar'' =
            Some \<lparr>extensionId = takeWhile (\<lambda>c. c \<noteq> CHR ''-'') head,
                  command = (if CHR ''-'' \<in> set head
                             then tl (dropWhile (\<lambda>c. c \<noteq> CHR ''-'') head)
                             else ''default''),
                  args = rest, raw = ''/foo bar''\<rparr>"
    by blast
  from hr s have "head = ''foo''" and "rest = [''bar'']" by simp_all
  with p c show ?thesis by simp
qed

lemma parse_some: "isCommand input \<Longrightarrow> parseCommand input \<noteq> None"
  using split_ws_ne [of "drop 1 (trim input)"]
  by (cases "split_ws (drop 1 (trim input))")
     (auto simp: parseCommand_def isCommand_trim substring_from_def Let_def)

text \<open>
  Claim C10. The parser returns \<open>null\<close> exactly when the trimmed input does not start
  with \<open>/\<close>. The inputs \<open>/\<close> and \<open>/-x\<close> are parsed, with an empty extension id; it is
  \<open>isValidCommand\<close> that rejects them, being true exactly for a parsed command whose
  extension id and command are both non-empty.
\<close>

theorem parseCommand_null_iff_not_command:
  "(parseCommand input = None \<longleftrightarrow> \<not> startsWith (trim input) ''/'') \<and>
   (isValidCommand (parseCommand input) \<longleftrightarrow>
      (\<exists>p. parseCommand input = Some p \<and> extensionId p \<noteq> [] \<and> command p \<noteq> [])) \<and>
   parseCommand ''/'' =
     Some \<lparr>extensionId = [], command = ''default'', args = [], raw = ''/''\<rparr> \<and>
   \<not> isValidCommand (parseCommand ''/'') \<and>
   parseCommand ''/-x'' =
     Some \<lparr>extensionId = [], command = ''x'', args = [], raw = ''/-x''\<rparr> \<and>
   \<not> isValidCommand (parseCommand ''/-x'')"
proof (intro conjI)
  show "parseCommand input = None \<longleftrightarrow> \<not> startsWith (trim input) ''/''"
  proof (cases "isCommand input")
    case True
    then show ?thesis using parse_some [OF True] by (simp add: isCommand_def)
  next
    case False
    then have "parseCommand input = None" by (simp add: parseCommand_def isCommand_trim)
    with False show ?thesis by (simp add: isCommand_def)
  qed
  show "isValidCommand (parseCommand input) \<longleftrightarrow>
      (\<exists>p. parseCommand input = Some p \<and> extensionId p \<noteq> [] \<and> command p \<noteq> [])"
    by (cases "parseCommand input") (auto simp: isValidCommand_def)
  show "parseCommand ''/'' =
     Some \<lparr>extensionId = [], command = ''default'', args = [], raw = ''/''\<rparr>"
    by code_simp
  show "\<not> isValidCommand (parseCommand ''/'')" by code_simp
  show "parseCommand ''/-x'' =
     Some \<lparr>extensionId = [], command = ''x'', args = [], raw = ''/-x''\<rparr>"
    by code_simp
  show "\<not> isValidCommand (parseCommand ''/-x'')" by code_simp
qed

section \<open>Manifest validation\<close>

lemma js_typeof_string: "js_typeof v = ''string'' \<longleftrightarrow> (\<exists>s. v = JStr s)"
  by (cases v) auto

lemma js_isArray_iff: "js_isArray v \<longleftrightarrow> (\<exists>xs. v = JArr xs)"
  by (cases v) auto

text \<open>
  Claim C3, as stated, fails: a manifest whose \<open>id\<close> is the empty string passes
  \<open>isValidManifest\<close>, and a manifest response that carries no id is converted, accepted
  and stored in an offer with the empty id.
\<close>

theorem empty_id_manifest_accepted:
  "isValidManifest
     (JObj [(''id'', JStr []), (''name'', JStr ''Sheet''), (''description'', JStr []),
            (''icon'', JStr []), (''publicUrl'', JStr []), (''version'', JStr ''1.0.0''),
            (''commands'', JArr [])]) \<and>
   js_get
     (JObj [(''id'', JStr []), (''name'', JStr ''Sheet''), (''description'', JStr []),
            (''icon'', JStr []), (''publicUrl'', JStr []), (''version'', JStr ''1.0.0''),
            (''commands'', JArr [])]) ''id'' = JStr [] \<and>
   map_option (\<lambda>offer. m_id (manifest offer))
     (map_of
        (offers
           (handleExtensionDiscovery 1
              (Inr \<lparr>payload = None,
                     resp_manifest = Some \<lparr>mr_manifest = Some
                       \<lparr>pb_id = None, pb_m_name = Some ''Sheet'', pb_version = Some ''1.0.0'',
                        pb_m_description = None, pb_author = None, pb_publicUrl = None,
                        pb_icon = None, pb_commands = None\<rparr>\<rparr>,
                     resp_command = None\<rparr>)
              ''peerA'' ''sheet'' \<lparr>offers = [], installed = []\<rparr>))
        ''sheet'') = Some []"
  by (simp add: isValidManifest_def handleExtensionDiscovery_def isInstalled_def
      fetchManifest_def payload_is_def convert_manifest_def str_or_def js_of_manifest_def)

text \<open>
  Claim C3, amended. \<open>isValidManifest\<close> accepts exactly the objects whose \<open>id\<close>,
  \<open>name\<close>, \<open>description\<close>, \<open>icon\<close>, \<open>publicUrl\<close> and \<open>version\<close> are strings and
  whose \<open>commands\<close> is an array; the strings may be empty. Every manifest that
  \<open>fetchManifest\<close> builds is accepted, also with the empty id.
\<close>

theorem isValidManifest_checks_types_only:
  "(isValidManifest v \<longleftrightarrow>
      (\<exists>ps. v = JObj ps \<and>
         (\<exists>s. map_of ps ''id'' = Some (JStr s)) \<and>
         (\<exists>s. map_of ps ''name'' = Some (JStr s)) \<and>
         (\<exists>s. map_of ps ''description'' = Some (JStr s)) \<and>
         (\<exists>s. map_of ps ''icon'' = Some (JStr s)) \<and>
         (\<exists>s. map_of ps ''publicUrl'' = Some (JStr s)) \<and>
         (\<exists>s. map_of ps ''version'' = Some (JStr s)) \<and>
         (\<exists>cs. map_of ps ''commands'' = Some (JArr cs)))) \<and>
   isValidManifest (js_of_manifest m) \<and>
   isValidManifest (js_of_manifest (m\<lparr>m_id := []\<rparr>))"
proof (intro conjI)
  show "isValidManifest v \<longleftrightarrow>
      (\<exists>ps. v = JObj ps \<and>
         (\<exists>s. map_of ps ''id'' = Some (JStr s)) \<and>
         (\<exists>s. map_of ps ''name'' = Some (JStr s)) \<and>
         (\<exists>s. map_of ps ''description'' = Some (JStr s)) \<and>
         (\<exists>s. map_of ps ''icon'' = Some (JStr s)) \<and>
         (\<exists>s. map_of ps ''publicUrl'' = Some (JStr s)) \<and>
         (\<exists>s. map_of ps ''version'' = Some (JStr s)) \<and>
         (\<exists>cs. map_of ps ''commands'' = Some (JArr cs)))"
  proof (cases v)
    case (JObj ps)
    have a: "\<And>k. (\<exists>s. js_get (JObj ps) k = JStr s) \<longleftrightarrow> (\<exists>s. map_of ps k = Some (JStr s))"
      by (auto split: option.splits)
    have b: "\<And>k. (\<exists>s. js_get (JObj ps) k = JArr s) \<longleftrightarrow> (\<exists>s. map_of ps k = Some (JArr s))"
      by (auto split: option.splits)
    show ?thesis unfolding JObj isValidManifest_def js_typeof_string js_isArray_iff a b
      by simp
  qed (simp_all add: isValidManifest_def)
  show "isValidManifest (js_of_manifest m)"
    by (simp add: isValidManifest_def js_of_manifest_def)
  show "isValidManifest (js_of_manifest (m\<lparr>m_id := []\<rparr>))"
    by (simp add: isValidManifest_def js_of_manifest_def)
qed

section \<open>Properties of the identify-based manager\<close>

lemma offers_updateInstalledPeers: "offers (updateInstalledPeers x p st) = offers st"
  by (simp add: updateInstalledPeers_def split: option.splits)

lemma map_of_update_same: "map_of (AList.update k v al) k = Some v"
  by (simp add: update_conv')

lemma discovery_existing_offer:
  "map_of (offers st) x = Some offer \<Longrightarrow>
     offers (handleExtensionDiscovery now ex p x st) =
       (if p \<in> set (peerIds offer) then offers st
        else AList.update x (offer\<lparr>peerIds := peerIds offer @ [p], timestamp := now\<rparr>) (offers st))"
  by (simp add: handleExtensionDiscovery_def offers_updateInstalledPeers)

text \<open>
  Claim C2, as stated, fails for a peer that is already in the offer's peer set: the
  offer \<open>sheet\<close> was last seen at time 1000 with peers A and B; after a sighting from
  peer A at time 2000 its timestamp is still 1000.
\<close>

theorem known_peer_sighting_keeps_timestamp:
  "map_option timestamp
     (map_of (offers (handleExtensionDiscovery 2000 (Inl ''not dialled'') ''peerA'' ''sheet''
                        sheet_offered)) ''sheet'') = Some 1000 \<and>
   map_option timestamp
     (map_of (offers (handleExtensionDiscovery 2000 (Inl ''not dialled'') ''peerA'' ''sheet''
                        sheet_offered)) ''sheet'') \<noteq> Some 2000"
  by (simp add: handleExtensionDiscovery_def sheet_offered_def updateInstalledPeers_def)

text \<open>
  Claim C2, amended. For an extension id with a stored offer, a sighting from a peer that
  is not in the offer's peer set appends the peer and sets the timestamp to the current
  time; a sighting from a peer already in the set leaves the offer as it is, timestamp
  included. So the peer is in the set afterwards, and a second sighting from the same
  peer changes no offer.
\<close>

theorem sighting_appends_new_peer_only:
  "map_of (offers st) x = Some offer \<Longrightarrow>
     map_of (offers (handleExtensionDiscovery now ex p x st)) x =
       Some (if p \<in> set (peerIds offer) then offer
             else offer\<lparr>peerIds := peerIds offer @ [p], timestamp := now\<rparr>) \<and>
     offers (handleExtensionDiscovery now' ex' p x (handleExtensionDiscovery now ex p x st)) =
       offers (handleExtensionDiscovery now ex p x st)"
proof -
  assume a: "map_of (offers st) x = Some offer"
  let ?st' = "handleExtensionDiscovery now ex p x st"
  let ?o' = "if p \<in> set (peerIds offer) then offer
             else offer\<lparr>peerIds := peerIds offer @ [p], timestamp := now\<rparr>"
  have 1: "map_of (offers ?st') x = Some ?o'"
    using a by (simp add: discovery_existing_offer map_of_update_same)
  have "p \<in> set (peerIds ?o')" by simp
  then have 2: "offers (handleExtensionDiscovery now' ex' p x ?st') = offers ?st'"
    using discovery_existing_offer [OF 1, of now' ex' p] by (simp only: if_True)
  from 1 2 show ?thesis by (rule conjI)
qed

theorem sighting_appends_new_peer_only_witness:
  "map_of (offers sheet_offered) ''sheet'' =
     Some \<lparr>manifest = sheet_manifest, timestamp = 1000, peerIds = [''peerA'', ''peerB'']\<rparr> \<and>
   map_of (offers (handleExtensionDiscovery 2000 (Inl ''not dialled'') ''peerC'' ''sheet''
                     sheet_offered)) ''sheet'' =
     Some \<lparr>manifest = sheet_manifest, timestamp = 2000,
           peerIds = [''peerA'', ''peerB'', ''peerC'']\<rparr>"
proof -
  have h: "map_of (offers sheet_offered) ''sheet'' =
     Some \<lparr>manifest = sheet_manifest, timestamp = 1000, peerIds = [''peerA'', ''peerB'']\<rparr>"
    by (simp add: sheet_offered_def)
  from sighting_appends_new_peer_only [OF h, of 2000 "Inl ''not dialled''" "''peerC''"] h
  show ?thesis by simp
qed

text \<open>
  The guard of \<open>getExtensionPeers\<close> is a truthiness test, so the empty string counts as
  no hint; the identifiers of libp2p peers are never empty.
\<close>

lemma getExtensionPeers_empty_hint:
  "map_of (installed st) x = Some ext \<Longrightarrow> lastSuccessfulPeerId ext = Some [] \<Longrightarrow>
     getExtensionPeers st x = inst_peerIds ext"
  by (simp add: getExtensionPeers_def)

text \<open>
  Claim C6. For an installed extension whose \<open>lastSuccessfulPeerId\<close> is recorded (a peer
  identifier, which is a non-empty string) and still in the stored peer list,
  \<open>getExtensionPeers\<close> returns that peer first and then the other peers in their stored
  order; when none is recorded, or the recorded one is no longer stored, it returns the
  stored list. \<open>markPeerSuccess\<close> sets \<open>lastSuccessfulPeerId\<close> and leaves every stored
  peer list, and the offers, as they are.
\<close>

theorem last_successful_peer_first:
  "map_of (installed st) x = Some ext \<Longrightarrow>
     (\<forall>l. lastSuccessfulPeerId ext = Some l \<and> l \<noteq> [] \<and> l \<in> set (inst_peerIds ext) \<longrightarrow>
          getExtensionPeers st x = l # filter (\<lambda>p. p \<noteq> l) (inst_peerIds ext)) \<and>
     ((lastSuccessfulPeerId ext = None \<or>
       (\<exists>l. lastSuccessfulPeerId ext = Some l \<and> l \<notin> set (inst_peerIds ext))) \<longrightarrow>
          getExtensionPeers st x = inst_peerIds ext) \<and>
     map_of (installed (markPeerSuccess x p st)) x = Some (ext\<lparr>lastSuccessfulPeerId := Some p\<rparr>) \<and>
     map (\<lambda>(k, e). (k, inst_peerIds e)) (installed (markPeerSuccess x p st)) =
       map (\<lambda>(k, e). (k, inst_peerIds e)) (installed st) \<and>
     offers (markPeerSuccess x p st) = offers st"
proof -
  assume a: "map_of (installed st) x = Some ext"
  have upd: "map_of al x = Some ext \<Longrightarrow>
      map (\<lambda>(k, e). (k, inst_peerIds e)) (AList.update x (ext\<lparr>lastSuccessfulPeerId := Some p\<rparr>) al) =
      map (\<lambda>(k, e). (k, inst_peerIds e)) al" for al
    by (induction al) (auto split: if_splits)
  show ?thesis
    using a upd [OF a]
    by (auto simp: getExtensionPeers_def markPeerSuccess_def map_of_update_same)
qed

theorem last_successful_peer_first_witness:
  "map_of (installed sheet_installed) ''sheet'' =
     Some \<lparr>inst_manifest = sheet_manifest, installDate = 1500, enabled = True,
           inst_peerIds = [''peerA'', ''peerB''], lastSuccessfulPeerId = Some ''peerB''\<rparr> \<and>
   getExtensionPeers sheet_installed ''sheet'' = [''peerB'', ''peerA''] \<and>
   getExtensionPeers (markPeerSuccess ''sheet'' ''peerA'' sheet_installed) ''sheet'' =
     [''peerA'', ''peerB'']"
proof -
  have h: "map_of (installed sheet_installed) ''sheet'' =
     Some \<lparr>inst_manifest = sheet_manifest, installDate = 1500, enabled = True,
           inst_peerIds = [''peerA'', ''peerB''], lastSuccessfulPeerId = Some ''peerB''\<rparr>"
    by (simp add: sheet_installed_def)
  from last_successful_peer_first [OF h]
  have 1: "getExtensionPeers sheet_installed ''sheet'' = [''peerB'', ''peerA'']"
    by simp
  from last_successful_peer_first [OF h, of "''peerA''"]
  have 2: "map_of (installed (markPeerSuccess ''sheet'' ''peerA'' sheet_installed)) ''sheet'' =
     Some \<lparr>inst_manifest = sheet_manifest, installDate = 1500, enabled = True,
           inst_peerIds = [''peerA'', ''peerB''], lastSuccessfulPeerId = Some ''peerA''\<rparr>"
    by simp
  from last_successful_peer_first [OF 2]
  have 3: "getExtensionPeers (markPeerSuccess ''sheet'' ''peerA'' sheet_installed) ''sheet'' =
     [''peerA'', ''peerB'']"
    by simp
  from h 1 3 show ?thesis by simp
qed

lemma map_of_delete_same: "map_of (AList.delete k al) k = None"
  by (simp add: delete_conv')

text \<open>
  Claim C8. For an extension id that has an offer and is not installed,
  \<open>installExtension\<close> returns \<open>true\<close>; afterwards the extension is installed, the
  offers no longer hold the id, and the installation carries the offer's manifest and
  its whole peer list. For an installed id, \<open>uninstallExtension\<close> returns \<open>true\<close>,
  the extension is no longer installed, and the offers are as they were.
\<close>

theorem install_moves_offer_uninstall_removes:
  "(map_of (offers st) x = Some offer \<and> \<not> isInstalled st x \<longrightarrow>
      fst (installExtension now x st) \<and>
      isInstalled (snd (installExtension now x st)) x \<and>
      map_of (offers (snd (installExtension now x st))) x = None \<and>
      x \<notin> fst ` set (offers (snd (installExtension now x st))) \<and>
      getExtension (snd (installExtension now x st)) x =
        Some \<lparr>inst_manifest = manifest offer, installDate = now, enabled = True,
              inst_peerIds = peerIds offer, lastSuccessfulPeerId = None\<rparr>) \<and>
   (isInstalled st x \<longrightarrow>
      fst (uninstallExtension x st) \<and>
      \<not> isInstalled (snd (uninstallExtension x st)) x \<and>
      offers (snd (uninstallExtension x st)) = offers st)"
  by (auto simp: installExtension_def uninstallExtension_def isInstalled_def getExtension_def
      map_of_update_same map_of_delete_same Let_def delete_notin_dom)

theorem install_moves_offer_uninstall_removes_witness:
  "map_of (offers sheet_offered) ''sheet'' =
     Some \<lparr>manifest = sheet_manifest, timestamp = 1000, peerIds = [''peerA'', ''peerB'']\<rparr> \<and>
   \<not> isInstalled sheet_offered ''sheet'' \<and>
   isInstalled (snd (installExtension 1500 ''sheet'' sheet_offered)) ''sheet'' \<and>
   offers (snd (installExtension 1500 ''sheet'' sheet_offered)) = [] \<and>
   \<not> isInstalled
       (snd (uninstallExtension ''sheet'' (snd (installExtension 1500 ''sheet'' sheet_offered))))
       ''sheet'' \<and>
   offers (snd (uninstallExtension ''sheet'' (snd (installExtension 1500 ''sheet'' sheet_offered))))
     = []"
proof -
  have h: "map_of (offers sheet_offered) ''sheet'' =
     Some \<lparr>manifest = sheet_manifest, timestamp = 1000, peerIds = [''peerA'', ''peerB'']\<rparr>"
    by (simp add: sheet_offered_def)
  have n: "\<not> isInstalled sheet_offered ''sheet''"
    by (simp add: sheet_offered_def isInstalled_def)
  have o: "offers (snd (installExtension 1500 ''sheet'' sheet_offered)) = []"
    by (simp add: installExtension_def sheet_offered_def isInstalled_def)
  from install_moves_offer_uninstall_removes [of sheet_offered "''sheet''" _ 1500] h n
  have i: "isInstalled (snd (installExtension 1500 ''sheet'' sheet_offered)) ''sheet''"
    by blast
  with install_moves_offer_uninstall_removes
         [of "snd (installExtension 1500 ''sheet'' sheet_offered)" "''sheet''"]
  have u: "\<not> isInstalled
       (snd (uninstallExtension ''sheet'' (snd (installExtension 1500 ''sheet'' sheet_offered))))
       ''sheet'' \<and>
     offers (snd (uninstallExtension ''sheet'' (snd (installExtension 1500 ''sheet'' sheet_offered))))
       = offers (snd (installExtension 1500 ''sheet'' sheet_offered))"
    by blast
  from h n i o u show ?thesis by simp
qed

text \<open>
  Claim C9. \<open>removePeer\<close> filters the peer out of the installation's peer list and
  clears \<open>lastSuccessfulPeerId\<close> when it is that peer; it filters the peer out of the
  offer's peer list and deletes the offer when no peer is left. Afterwards the peer is in
  neither list.
\<close>

theorem removePeer_drops_peer:
  "(\<forall>ext. map_of (installed st) x = Some ext \<longrightarrow>
      map_of (installed (removePeer x p st)) x =
        Some (ext\<lparr>inst_peerIds := filter (\<lambda>q. q \<noteq> p) (inst_peerIds ext),
                  lastSuccessfulPeerId :=
                    (if lastSuccessfulPeerId ext = Some p then None
                     else lastSuccessfulPeerId ext)\<rparr>)) \<and>
   (\<forall>offer. map_of (offers st) x = Some offer \<longrightarrow>
      map_of (offers (removePeer x p st)) x =
        (if filter (\<lambda>q. q \<noteq> p) (peerIds offer) = [] then None
         else Some (offer\<lparr>peerIds := filter (\<lambda>q. q \<noteq> p) (peerIds offer)\<rparr>))) \<and>
   (\<forall>ext'. map_of (installed (removePeer x p st)) x = Some ext' \<longrightarrow>
      p \<notin> set (inst_peerIds ext') \<and> lastSuccessfulPeerId ext' \<noteq> Some p) \<and>
   (\<forall>offer'. map_of (offers (removePeer x p st)) x = Some offer' \<longrightarrow>
      p \<notin> set (peerIds offer'))"
proof -
  have oi: "offers (removePeer_installed x p st) = offers st"
    by (simp add: removePeer_installed_def split: option.splits)
  have io: "installed (removePeer_offer x p s) = installed s" for s
    by (simp add: removePeer_offer_def Let_def split: option.splits)
  have 1: "\<forall>ext. map_of (installed st) x = Some ext \<longrightarrow>
      map_of (installed (removePeer x p st)) x =
        Some (ext\<lparr>inst_peerIds := filter (\<lambda>q. q \<noteq> p) (inst_peerIds ext),
                  lastSuccessfulPeerId :=
                    (if lastSuccessfulPeerId ext = Some p then None
                     else lastSuccessfulPeerId ext)\<rparr>)"
    by (simp add: removePeer_def io removePeer_installed_def map_of_update_same)
  have 2: "\<forall>offer. map_of (offers st) x = Some offer \<longrightarrow>
      map_of (offers (removePeer x p st)) x =
        (if filter (\<lambda>q. q \<noteq> p) (peerIds offer) = [] then None
         else Some (offer\<lparr>peerIds := filter (\<lambda>q. q \<noteq> p) (peerIds offer)\<rparr>))"
    by (simp add: removePeer_def removePeer_offer_def oi Let_def map_of_update_same
        map_of_delete_same)
  have 3: "\<forall>ext'. map_of (installed (removePeer x p st)) x = Some ext' \<longrightarrow>
      p \<notin> set (inst_peerIds ext') \<and> lastSuccessfulPeerId ext' \<noteq> Some p"
  proof (cases "map_of (installed st) x")
    case None
    then show ?thesis by (simp add: removePeer_def io removePeer_installed_def)
  next
    case (Some ext)
    with 1 show ?thesis by auto
  qed
  have 4: "\<forall>offer'. map_of (offers (removePeer x p st)) x = Some offer' \<longrightarrow>
      p \<notin> set (peerIds offer')"
  proof (cases "map_of (offers st) x")
    case None
    then show ?thesis by (simp add: removePeer_def removePeer_offer_def oi)
  next
    case (Some offer)
    with 2 show ?thesis by (auto split: if_splits)
  qed
  from 1 2 3 4 show ?thesis by blast
qed

theorem removePeer_drops_peer_witness:
  "getExtension (removePeer ''sheet'' ''peerB'' sheet_installed) ''sheet'' =
     Some \<lparr>inst_manifest = sheet_manifest, installDate = 1500, enabled = True,
           inst_peerIds = [''peerA''], lastSuccessfulPeerId = None\<rparr> \<and>
   map_of (offers (removePeer ''sheet'' ''peerA'' (removePeer ''sheet'' ''peerB'' sheet_offered)))
     ''sheet'' = None"
proof -
  have h: "map_of (installed sheet_installed) ''sheet'' =
     Some \<lparr>inst_manifest = sheet_manifest, installDate = 1500, enabled = True,
           inst_peerIds = [''peerA'', ''peerB''], lastSuccessfulPeerId = Some ''peerB''\<rparr>"
    by (simp add: sheet_installed_def)
  from removePeer_drops_peer [of sheet_installed "''sheet''" "''peerB''"] h
  have 1: "getExtension (removePeer ''sheet'' ''peerB'' sheet_installed) ''sheet'' =
     Some \<lparr>inst_manifest = sheet_manifest, installDate = 1500, enabled = True,
           inst_peerIds = [''peerA''], lastSuccessfulPeerId = None\<rparr>"
    by (simp add: getExtension_def)
  have o: "map_of (offers sheet_offered) ''sheet'' =
     Some \<lparr>manifest = sheet_manifest, timestamp = 1000, peerIds = [''peerA'', ''peerB'']\<rparr>"
    by (simp add: sheet_offered_def)
  from removePeer_drops_peer [of sheet_offered "''sheet''" "''peerB''"] o
  have o1: "map_of (offers (removePeer ''sheet'' ''peerB'' sheet_offered)) ''sheet'' =
     Some \<lparr>manifest = sheet_manifest, timestamp = 1000, peerIds = [''peerA'']\<rparr>"
    by simp
  from removePeer_drops_peer [of "removePeer ''sheet'' ''peerB'' sheet_offered" "''sheet''" "''peerA''"] o1
  have 2: "map_of (offers (removePeer ''sheet'' ''peerA'' (removePeer ''sheet'' ''peerB'' sheet_offered)))
     ''sheet'' = None"
    by simp
  from 1 2 show ?thesis by simp
qed

section \<open>Properties of command execution\<close>

text \<open>
  Claim C4. When the extension is not installed, or is installed with an empty peer
  list, \<open>executeCommand\<close> throws at once: no peer is dialled and the manager is
  unchanged. The two messages differ from each other and from the message thrown after
  all peers have failed.
\<close>

theorem executeCommand_fails_fast:
  "(getExtension st x = None \<longrightarrow>
      executeCommand net x c as st = (Inl (not_installed_error x), st, [])) \<and>
   (\<forall>ext. getExtension st x = Some ext \<and> inst_peerIds ext = [] \<longrightarrow>
      executeCommand net x c as st = (Inl (no_peers_error x), st, [])) \<and>
   not_installed_error x \<noteq> no_peers_error x \<and>
   not_installed_error x \<noteq> all_failed_error x errors \<and>
   no_peers_error x \<noteq> all_failed_error x errors"
  by (auto simp: executeCommand_def getExtension_def getExtensionPeers_def
      not_installed_error_def no_peers_error_def all_failed_error_def split: option.splits)

theorem executeCommand_fails_fast_witness:
  "getExtension sheet_offered ''sheet'' = None \<and>
   executeCommand failing_network ''sheet'' ''write'' [''doc'', ''A1=25''] sheet_offered =
     (Inl (not_installed_error ''sheet''), sheet_offered, []) \<and>
   executeCommand failing_network ''sheet'' ''write'' [''doc'', ''A1=25''] sheet_without_peers =
     (Inl (no_peers_error ''sheet''), sheet_without_peers, [])"
proof -
  have a: "getExtension sheet_offered ''sheet'' = None"
    by (simp add: getExtension_def sheet_offered_def)
  have b: "getExtension sheet_without_peers ''sheet'' =
      Some \<lparr>inst_manifest = sheet_manifest, installDate = 1500, enabled = True,
            inst_peerIds = [], lastSuccessfulPeerId = Some ''peerB''\<rparr>"
    by (simp add: getExtension_def sheet_without_peers_def)
  from executeCommand_fails_fast [of sheet_offered "''sheet''" failing_network] a
  have 1: "executeCommand failing_network ''sheet'' ''write'' [''doc'', ''A1=25''] sheet_offered =
     (Inl (not_installed_error ''sheet''), sheet_offered, [])"
    by blast
  from executeCommand_fails_fast [of sheet_without_peers "''sheet''" failing_network] b
  have 2: "executeCommand failing_network ''sheet'' ''write'' [''doc'', ''A1=25'']
      sheet_without_peers = (Inl (no_peers_error ''sheet''), sheet_without_peers, [])"
    by simp
  from a 1 2 show ?thesis by simp
qed

lemma try_peers_all_fail:
  "\<forall>k < length ps. \<exists>msg. executeOnPeer net (n + k) (ps ! k) protocol x c as = Inl msg \<Longrightarrow>
   try_peers net protocol x c as n ps errors dialed st =
     (Inl (all_failed_error x
        (errors @ map (\<lambda>k. slice_last8 (ps ! k) @ '': '' @
            (case executeOnPeer net (n + k) (ps ! k) protocol x c as of Inl msg \<Rightarrow> msg | Inr r \<Rightarrow> []))
          [0 ..< length ps])),
      st, dialed @ ps)"
proof (induction ps arbitrary: n errors dialed)
  case Nil
  then show ?case by simp
next
  case (Cons p ps)
  from Cons.prems obtain msg where m: "executeOnPeer net n p protocol x c as = Inl msg"
    by fastforce
  have rest: "\<forall>k < length ps. \<exists>msg. executeOnPeer net (Suc n + k) (ps ! k) protocol x c as = Inl msg"
    using Cons.prems by fastforce
  have split: "[0 ..< Suc (length ps)] = 0 # map Suc [0 ..< length ps]"
    by (simp add: upt_conv_Cons map_Suc_upt del: upt_Suc)
  show ?case
    using Cons.IH [OF rest, of "errors @ [slice_last8 p @ '': '' @ msg]" "dialed @ [p]"] m
    by (simp add: split comp_def del: upt_Suc)
qed

lemma join_contains: "e \<in> set es \<Longrightarrow> \<exists>pre post. join sep es = pre @ e @ post"
proof (induction sep es rule: join.induct)
  case (1 sep)
  then show ?case by simp
next
  case (2 sep x)
  then have "join sep [x] = [] @ e @ []" by simp
  then show ?case by blast
next
  case (3 sep x y ys)
  show ?case
  proof (cases "e = x")
    case True
    then have "join sep (x # y # ys) = [] @ e @ (sep @ join sep (y # ys))" by simp
    then show ?thesis by blast
  next
    case False
    with 3 obtain pre post where "join sep (y # ys) = pre @ e @ post" by auto
    then have "join sep (x # y # ys) = (x @ sep @ pre) @ e @ post" by simp
    then show ?thesis by blast
  qed
qed

text \<open>
  Claim C5. When the attempt on every candidate peer fails, \<open>executeCommand\<close> throws
  the error built from the list of all failures: it has one line per peer tried, in the
  order tried, made of the end of the peer's identifier and the message of that peer's
  failure, so the message of every attempt is part of the thrown message. Every
  candidate has been dialled and the manager is unchanged.
\<close>

theorem executeCommand_aggregates_failures:
  "getExtension st x = Some ext \<Longrightarrow> getExtensionPeers st x = ps \<Longrightarrow> ps \<noteq> [] \<Longrightarrow>
   \<forall>k < length ps. \<exists>msg.
      executeOnPeer net k (ps ! k) (getExtensionProtocol x (m_version (inst_manifest ext)))
        x c as = Inl msg \<Longrightarrow>
   \<exists>errors.
      executeCommand net x c as st = (Inl (all_failed_error x errors), st, ps) \<and>
      length errors = length ps \<and>
      (\<forall>k < length ps. \<forall>msg.
          executeOnPeer net k (ps ! k) (getExtensionProtocol x (m_version (inst_manifest ext)))
            x c as = Inl msg \<longrightarrow>
          errors ! k = slice_last8 (ps ! k) @ '': '' @ msg \<and>
          (\<exists>pre post. all_failed_error x errors = pre @ msg @ post))"
proof -
  assume ext: "getExtension st x = Some ext" and ps: "getExtensionPeers st x = ps"
    and ne: "ps \<noteq> []"
    and fail: "\<forall>k < length ps. \<exists>msg.
      executeOnPeer net k (ps ! k) (getExtensionProtocol x (m_version (inst_manifest ext)))
        x c as = Inl msg"
  let ?protocol = "getExtensionProtocol x (m_version (inst_manifest ext))"
  let ?errors = "map (\<lambda>k. slice_last8 (ps ! k) @ '': '' @
            (case executeOnPeer net (0 + k) (ps ! k) ?protocol x c as of
               Inl msg \<Rightarrow> msg | Inr r \<Rightarrow> []))
          [0 ..< length ps]"
  from fail have fail0: "\<forall>k < length ps. \<exists>msg.
      executeOnPeer net (0 + k) (ps ! k) ?protocol x c as = Inl msg"
    by simp
  have run: "executeCommand net x c as st = (Inl (all_failed_error x ?errors), st, ps)"
    using ext ps ne try_peers_all_fail [OF fail0, of "[]" "[]" st]
    by (simp add: executeCommand_def)
  have len: "length ?errors = length ps" by simp
  have each: "?errors ! k = slice_last8 (ps ! k) @ '': '' @ msg \<and>
          (\<exists>pre post. all_failed_error x ?errors = pre @ msg @ post)"
    if k: "k < length ps" and m: "executeOnPeer net k (ps ! k) ?protocol x c as = Inl msg"
    for k msg
  proof -
    have e: "?errors ! k = slice_last8 (ps ! k) @ '': '' @ msg"
      using k m by simp
    have "k < length ?errors" using k by simp
    then have "?errors ! k \<in> set ?errors" by (rule nth_mem)
    then obtain pre post where j: "join [CHR 0x0A] ?errors = pre @ (?errors ! k) @ post"
      using join_contains by blast
    have "all_failed_error x ?errors =
        (''All peers failed for extension '' @ [CHR 0x27] @ x @ [CHR 0x27] @ '':''
           @ [CHR 0x0A] @ pre @ slice_last8 (ps ! k) @ '': '') @ msg @ post"
      unfolding all_failed_error_def j e by (simp only: append_assoc)
    then have "\<exists>pre post. all_failed_error x ?errors = pre @ msg @ post" by (intro exI)
    with e show ?thesis by (rule conjI)
  qed
  show ?thesis
  proof (intro exI [of _ ?errors] conjI allI impI)
    show "executeCommand net x c as st = (Inl (all_failed_error x ?errors), st, ps)"
      by (rule run)
    show "length ?errors = length ps" by (rule len)
  next
    fix k msg
    assume "k < length ps" and "executeOnPeer net k (ps ! k) ?protocol x c as = Inl msg"
    then show "?errors ! k = slice_last8 (ps ! k) @ '': '' @ msg"
      using each by blast
  next
    fix k msg
    assume "k < length ps" and "executeOnPeer net k (ps ! k) ?protocol x c as = Inl msg"
    then show "\<exists>pre post. all_failed_error x ?errors = pre @ msg @ post"
      using each by blast
  qed
qed

theorem executeCommand_aggregates_failures_witness:
  "getExtensionPeers sheet_installed ''sheet'' = [''peerB'', ''peerA''] \<and>
   executeCommand failing_network ''sheet'' ''write'' [''doc'', ''A1=25''] sheet_installed =
     (Inl (all_failed_error ''sheet'' [''peerB: unknown command'', ''peerA: dial timeout'']),
      sheet_installed, [''peerB'', ''peerA''])"
proof -
  let ?ext = "\<lparr>inst_manifest = sheet_manifest, installDate = 1500, enabled = True,
           inst_peerIds = [''peerA'', ''peerB''], lastSuccessfulPeerId = Some ''peerB''\<rparr>"
  let ?protocol = "getExtensionProtocol ''sheet'' (m_version (inst_manifest ?ext))"
  have e: "getExtension sheet_installed ''sheet'' = Some ?ext"
    by (simp add: getExtension_def sheet_installed_def)
  have p: "getExtensionPeers sheet_installed ''sheet'' = [''peerB'', ''peerA'']"
    by (simp add: getExtensionPeers_def sheet_installed_def)
  have f0: "executeOnPeer failing_network 0 ''peerB'' ?protocol ''sheet'' ''write''
      [''doc'', ''A1=25''] = Inl ''unknown command''"
    by (simp add: executeOnPeer_def failing_network_def payload_is_def str_or_def)
  have f1: "executeOnPeer failing_network 1 ''peerA'' ?protocol ''sheet'' ''write''
      [''doc'', ''A1=25''] = Inl ''dial timeout''"
    by (simp add: executeOnPeer_def failing_network_def)
  have all: "\<forall>k < length [''peerB'', ''peerA'']. \<exists>msg.
      executeOnPeer failing_network k ([''peerB'', ''peerA''] ! k) ?protocol ''sheet'' ''write''
        [''doc'', ''A1=25''] = Inl msg"
    using f0 f1 by (simp add: less_Suc_eq numeral_2_eq_2)
  from executeCommand_aggregates_failures [OF e p _ all]
  obtain errors where
    run: "executeCommand failing_network ''sheet'' ''write'' [''doc'', ''A1=25''] sheet_installed =
      (Inl (all_failed_error ''sheet'' errors), sheet_installed, [''peerB'', ''peerA''])"
    and len: "length errors = 2"
    and each: "\<forall>k < 2. \<forall>msg.
          executeOnPeer failing_network k ([''peerB'', ''peerA''] ! k) ?protocol ''sheet'' ''write''
            [''doc'', ''A1=25''] = Inl msg \<longrightarrow>
          errors ! k = slice_last8 ([''peerB'', ''peerA''] ! k) @ '': '' @ msg"
    by auto
  from each f0 have e0: "errors ! 0 = ''peerB: unknown command''"
    by (simp add: slice_last8_def)
  from each f1 have e1: "errors ! 1 = ''peerA: dial timeout''"
    by (simp add: slice_last8_def)
  from len e0 e1 have "errors = [''peerB: unknown command'', ''peerA: dial timeout'']"
    by (cases errors; cases "tl errors") auto
  with run p show ?thesis by simp
qed

section \<open>The limit on the number of offers\<close>

lemma length_update_le: "length (AList.update k v al) \<le> Suc (length al)"
  by (induction al) auto

lemma length_delete_present:
  "distinct (map fst al) \<Longrightarrow> k \<in> fst ` set al \<Longrightarrow> Suc (length (AList.delete k al)) = length al"
proof (induction al)
  case Nil
  then show ?case by simp
next
  case (Cons a al)
  show ?case
  proof (cases "fst a = k")
    case True
    with Cons.prems have "k \<notin> fst ` set al" by auto
    then have "AList.delete k al = al" by simp
    with True show ?thesis by simp
  next
    case False
    with Cons show ?thesis by auto
  qed
qed

lemma hd_sort_key_least:
  "xs \<noteq> [] \<Longrightarrow> hd (sort_key f xs) \<in> set xs \<and> (\<forall>e \<in> set xs. f (hd (sort_key f xs)) \<le> f e)"
proof -
  assume ne: "xs \<noteq> []"
  then have "sort_key f xs \<noteq> []" by (metis length_0_conv length_sort)
  then obtain y ys where ys: "sort_key f xs = y # ys" by (cases "sort_key f xs") auto
  have "sorted (map f (y # ys))" using sorted_sort_key [of f xs] ys by simp
  then have "\<forall>e \<in> set (y # ys). f y \<le> f e" by auto
  moreover have "set (y # ys) = set xs" using set_sort [of f xs] ys by simp
  ultimately show ?thesis using ys by auto
qed

lemma oldestKey_least:
  "entries \<noteq> [] \<Longrightarrow>
     \<exists>ofr. (oldestKey entries, ofr) \<in> set entries \<and>
         (\<forall>e \<in> set entries. po_timestamp ofr \<le> po_timestamp (snd e))"
proof -
  assume "entries \<noteq> []"
  from hd_sort_key_least [OF this, of "\<lambda>e. po_timestamp (snd e)"]
  show ?thesis unfolding oldestKey_def
    by (metis prod.collapse)
qed

lemma limit_offers_bounded:
  "distinct (map fst entries) \<Longrightarrow> length entries \<le> Suc MAX_OFFERS \<Longrightarrow>
     length (limit_offers entries) \<le> MAX_OFFERS \<and> distinct (map fst (limit_offers entries))"
proof -
  assume d: "distinct (map fst entries)" and l: "length entries \<le> Suc MAX_OFFERS"
  show ?thesis
  proof (cases "length entries > MAX_OFFERS")
    case True
    then have "entries \<noteq> []" by auto
    from oldestKey_least [OF this] have "oldestKey entries \<in> fst ` set entries" by force
    from length_delete_present [OF d this] l True d
    show ?thesis by (simp add: limit_offers_def distinct_delete)
  next
    case False
    with d show ?thesis by (simp add: limit_offers_def)
  qed
qed

lemma offers_inv_offer: "offers_inv st \<Longrightarrow> offers_inv (handleExtensionOffer message publisher now st)"
proof -
  assume i: "offers_inv st"
  have "length (limit_offers (AList.update k v (p_offers st))) \<le> MAX_OFFERS \<and>
        distinct (map fst (limit_offers (AList.update k v (p_offers st))))" for k v
  proof (rule limit_offers_bounded)
    show "distinct (map fst (AList.update k v (p_offers st)))"
      using i by (simp add: offers_inv_def distinct_update)
    show "length (AList.update k v (p_offers st)) \<le> Suc MAX_OFFERS"
      using i length_update_le [of k v "p_offers st"] by (simp add: offers_inv_def)
  qed
  with i show ?thesis
    by (simp add: handleExtensionOffer_def offers_inv_def Let_def split: jsval.splits)
qed

lemma offers_inv_delete: "offers_inv st \<Longrightarrow> offers_inv (st\<lparr>p_offers := AList.delete k (p_offers st)\<rparr>)"
  using length_delete_le [of k "p_offers st"]
  by (simp add: offers_inv_def distinct_delete)

lemma reachable_offers_inv: "reachable st \<Longrightarrow> offers_inv st"
proof (induction rule: reachable.induct)
  case (init stored)
  show ?case by (simp add: offers_inv_def)
next
  case (offer st message publisher now)
  then show ?case by (simp add: offers_inv_offer)
next
  case (install st now extId)
  from offers_inv_delete [OF install.IH, of extId] install.IH
  show ?case
    by (auto simp: p_installExtension_def offers_inv_def split: option.splits)
next
  case (uninstall st extId)
  then show ?case by (simp add: p_uninstallExtension_def offers_inv_def)
next
  case (enable st extId b)
  then show ?case by (simp add: p_setExtensionEnabled_def offers_inv_def split: option.splits)
next
  case (dismiss st extId)
  then show ?case using offers_inv_delete [of st extId] by (simp add: p_dismissOffer_def)
qed

text \<open>
  Claim C1, as stated, fails on the identify-based manager, which has no limit: after
  eleven extensions have been discovered, each with a valid manifest, it holds eleven
  offers.
\<close>

theorem identify_manager_stores_eleven_offers:
  "length (offers eleven_discovered) = 11 \<and>
   map fst (offers eleven_discovered) = eleven_ids \<and>
   \<not> length (offers eleven_discovered) \<le> 10"
proof -
  have m: "map fst (offers eleven_discovered) = eleven_ids" by code_simp
  have l: "length (offers eleven_discovered) = 11" by code_simp
  from l have "\<not> length (offers eleven_discovered) \<le> 10" by simp
  with l m show ?thesis by (intro conjI)
qed

text \<open>
  Claim C1, amended. In every reachable state of the pubsub-based manager the offers map
  has at most 10 entries, with distinct keys. When recording a valid offer for an
  extension that is not installed makes the map larger than 10, one entry with the least
  timestamp of the map (the recorded offer included) is deleted, and 10 entries remain.
\<close>

theorem pubsub_offers_bounded_oldest_evicted:
  "reachable st \<Longrightarrow>
     length (p_offers st) \<le> 10 \<and> distinct (map fst (p_offers st)) \<and>
     (\<forall>message publisher now mid.
        isValidManifest (js_get message ''manifest'') \<and>
        js_get (js_get message ''manifest'') ''id'' = JStr mid \<and>
        \<not> p_isInstalled st mid \<and>
        10 < length (AList.update mid
                \<lparr>po_manifest = js_get message ''manifest'', po_timestamp = now,
                 publisherPeerId = publisher\<rparr> (p_offers st)) \<longrightarrow>
        (\<exists>k ofr.
           (k, ofr) \<in> set (AList.update mid
                \<lparr>po_manifest = js_get message ''manifest'', po_timestamp = now,
                 publisherPeerId = publisher\<rparr> (p_offers st)) \<and>
           (\<forall>e \<in> set (AList.update mid
                \<lparr>po_manifest = js_get message ''manifest'', po_timestamp = now,
                 publisherPeerId = publisher\<rparr> (p_offers st)).
               po_timestamp ofr \<le> po_timestamp (snd e)) \<and>
           p_offers (handleExtensionOffer message publisher now st) =
             AList.delete k (AList.update mid
                \<lparr>po_manifest = js_get message ''manifest'', po_timestamp = now,
                 publisherPeerId = publisher\<rparr> (p_offers st)) \<and>
           length (p_offers (handleExtensionOffer message publisher now st)) = 10))"
proof -
  assume r: "reachable st"
  have inv: "length (p_offers st) \<le> MAX_OFFERS" "distinct (map fst (p_offers st))"
    using reachable_offers_inv [OF r] by (simp_all add: offers_inv_def)
  have evict: "\<exists>k ofr.
           (k, ofr) \<in> set upd \<and>
           (\<forall>e \<in> set upd. po_timestamp ofr \<le> po_timestamp (snd e)) \<and>
           p_offers (handleExtensionOffer message publisher now st) = AList.delete k upd \<and>
           length (p_offers (handleExtensionOffer message publisher now st)) = 10"
    if pre: "isValidManifest (js_get message ''manifest'') \<and>
        js_get (js_get message ''manifest'') ''id'' = JStr mid \<and>
        \<not> p_isInstalled st mid \<and> 10 < length upd"
      and upd: "upd = AList.update mid
                \<lparr>po_manifest = js_get message ''manifest'', po_timestamp = now,
                 publisherPeerId = publisher\<rparr> (p_offers st)"
    for message publisher now mid upd
  proof -
    from pre have v: "isValidManifest (js_get message ''manifest'')"
      and i: "js_get (js_get message ''manifest'') ''id'' = JStr mid"
      and n: "\<not> p_isInstalled st mid" and big: "10 < length upd"
      by simp_all
    have ne: "upd \<noteq> []" using big by auto
    from oldestKey_least [OF ne] obtain ofr where
      mem: "(oldestKey upd, ofr) \<in> set upd" and
      least: "\<forall>e \<in> set upd. po_timestamp ofr \<le> po_timestamp (snd e)"
      by blast
    have d: "distinct (map fst upd)" using inv(2) by (simp add: upd distinct_update)
    have "length upd \<le> Suc (length (p_offers st))"
      unfolding upd by (rule length_update_le)
    with inv(1) have le: "length upd \<le> Suc MAX_OFFERS" by simp
    from mem have "oldestKey upd \<in> fst ` set upd" by force
    from length_delete_present [OF d this] le big
    have len: "length (AList.delete (oldestKey upd) upd) = 10"
      by (simp add: MAX_OFFERS_def)
    have res: "p_offers (handleExtensionOffer message publisher now st) =
        AList.delete (oldestKey upd) upd"
      using v i n big
      by (simp add: handleExtensionOffer_def Let_def limit_offers_def MAX_OFFERS_def
          upd [symmetric])
    from len res have len': "length (p_offers (handleExtensionOffer message publisher now st)) = 10"
      by simp
    from mem least res len' show ?thesis by (intro exI conjI)
  qed
  show ?thesis
  proof (intro conjI allI impI)
    show "length (p_offers st) \<le> 10" using inv(1) by (simp add: MAX_OFFERS_def)
    show "distinct (map fst (p_offers st))" by (rule inv(2))
  next
    fix message publisher now mid
    assume "isValidManifest (js_get message ''manifest'') \<and>
        js_get (js_get message ''manifest'') ''id'' = JStr mid \<and>
        \<not> p_isInstalled st mid \<and>
        10 < length (AList.update mid
                \<lparr>po_manifest = js_get message ''manifest'', po_timestamp = now,
                 publisherPeerId = publisher\<rparr> (p_offers st))"
    then show "\<exists>k ofr.
           (k, ofr) \<in> set (AList.update mid
                \<lparr>po_manifest = js_get message ''manifest'', po_timestamp = now,
                 publisherPeerId = publisher\<rparr> (p_offers st)) \<and>
           (\<forall>e \<in> set (AList.update mid
                \<lparr>po_manifest = js_get message ''manifest'', po_timestamp = now,
                 publisherPeerId = publisher\<rparr> (p_offers st)).
               po_timestamp ofr \<le> po_timestamp (snd e)) \<and>
           p_offers (handleExtensionOffer message publisher now st) =
             AList.delete k (AList.update mid
                \<lparr>po_manifest = js_get message ''manifest'', po_timestamp = now,
                 publisherPeerId = publisher\<rparr> (p_offers st)) \<and>
           length (p_offers (handleExtensionOffer message publisher now st)) = 10"
      by (rule evict) (rule refl)
  qed
qed

lemma reachable_fold_offers:
  "reachable st \<Longrightarrow>
     reachable (fold (\<lambda>(extId, now). handleExtensionOffer (offer_message extId) p now) xs st)"
  by (induction xs arbitrary: st) (auto intro: reachable.offer)

theorem pubsub_offers_bounded_oldest_evicted_witness:
  "reachable ten_offered \<and>
   length (p_offers ten_offered) = 10 \<and>
   length (p_offers (handleExtensionOffer (offer_message ''e11'') ''peerA'' 11 ten_offered)) = 10 \<and>
   map fst (p_offers (handleExtensionOffer (offer_message ''e11'') ''peerA'' 11 ten_offered)) =
     tl eleven_ids"
proof -
  have r: "reachable ten_offered"
    unfolding ten_offered_def by (rule reachable_fold_offers) (rule reachable.init)
  have l: "length (p_offers ten_offered) = 10" by code_simp
  have v: "isValidManifest (js_get (offer_message ''e11'') ''manifest'')" by code_simp
  have i: "js_get (js_get (offer_message ''e11'') ''manifest'') ''id'' = JStr ''e11''"
    by code_simp
  have n: "\<not> p_isInstalled ten_offered ''e11''" by code_simp
  have big: "10 < length (AList.update ''e11''
                \<lparr>po_manifest = js_get (offer_message ''e11'') ''manifest'', po_timestamp = 11,
                 publisherPeerId = ''peerA''\<rparr> (p_offers ten_offered))"
    by code_simp
  note ev = pubsub_offers_bounded_oldest_evicted [OF r, THEN conjunct2, THEN conjunct2,
      THEN spec, THEN spec, THEN spec, THEN spec, THEN mp,
      OF conjI [OF v conjI [OF i conjI [OF n big]]]]
  from ev have e: "length (p_offers (handleExtensionOffer (offer_message ''e11'') ''peerA'' 11
      ten_offered)) = 10"
    by (elim exE conjE)
  have m: "map fst (p_offers (handleExtensionOffer (offer_message ''e11'') ''peerA'' 11
      ten_offered)) = tl eleven_ids"
    by code_simp
  from r l e m show ?thesis by (intro conjI)
qed

end
